theory Spec2Isabelle
  imports
    Complex_Main
    "HOL-Library.Finite_Map"
    "HOL-Library.List_Lexorder"
    "HOL-Library.Char_ord"
    "HOL-Library.Option_ord"
begin

section \<open>Values, documents and the outside world\<close>

text \<open>
  The program is \<^verbatim>\<open>src/agriculture_app_setup.js\<close>: a cron task
  \<^verbatim>\<open>updateMarketPrices\<close> (section 3 of the file), the three helpers of
  \<^verbatim>\<open>utils/market.js\<close> (section 4) and the Express handler of
  \<^verbatim>\<open>GET /api/market\<close> (section 2).

  \<^verbatim>\<open>response.data\<close> of axios is a parsed JSON value (or the body as a string).
  Numbers are never computed on, so a rational carrier is enough; a string is its list of
  code units.
\<close>

datatype json =
    JNull
  | JBool bool
  | JNum rat
  | JStr string
  | JArr "json list"
  | JObj "(string, json) fmap"

text \<open>A Firestore document is a finite map from field names to values.\<close>

type_synonym doc = "(string, json) fmap"

text \<open>A document is addressed by its collection and its id: \<^verbatim>\<open>db.collection(c).doc(d)\<close>.\<close>

type_synonym path = "string \<times> string"

text \<open>
  What a rejected promise carries. axios rejects on a network error, on a status outside
  2xx and on a timeout; the Firestore client rejects a read or a write.
\<close>

datatype error =
    NetworkError
  | BadStatus nat
  | Timeout
  | DbError string

text \<open>
  The calls the program makes on its collaborators, in the order it makes them: the HTTP
  request, the Firestore write and read, the two console calls and \<^verbatim>\<open>res.json\<close>.
  \<^verbatim>\<open>doc.data()\<close> is \<^verbatim>\<open>undefined\<close> for a document that does not exist, so the value
  handed to \<^verbatim>\<open>res.json\<close> is a \<open>doc option\<close> with \<open>None\<close> for \<^verbatim>\<open>undefined\<close>.
\<close>

datatype effect =
    HttpGet string
  | DbSet path doc
  | DbGet path
  | ConsoleLog string
  | ConsoleError string error
  | ResJson "doc option"

record world =
  store :: "path \<Rightarrow> doc option"
  trace :: "effect list"

text \<open>
  What the outside world answers during one run: the outcome of \<^verbatim>\<open>axios.get(url)\<close>
  (\<open>Inr\<close> carries \<^verbatim>\<open>response.data\<close>), the value of \<^verbatim>\<open>new Date().toISOString()\<close>
  at the moment \<^verbatim>\<open>savePricesToDB\<close> evaluates it, and the outcomes of the Firestore
  write and read (\<open>None\<close>: the promise resolves). \<open>tick_time\<close> is the wall clock when the
  scheduler invokes the task; the task never reads it. A rejected write is taken to
  leave the stored document as it was.
\<close>

record env =
  tick_time :: string
  http_get :: "error + json"
  clock :: string
  db_set :: "error option"
  db_get :: "error option"

definition emit :: "effect \<Rightarrow> world \<Rightarrow> world" where
  "emit x w = w\<lparr>trace := trace w @ [x]\<rparr>"

definition market_url :: string where
  "market_url = ''https://api.example.com/agriculture/market-prices''"

definition market_prices :: path where
  "market_prices = (''market'', ''prices'')"

text \<open>The two console messages; each starts with an emoji, given by its UTF-8 bytes.\<close>

definition updated_msg :: string where
  "updated_msg = [CHR 0xE2, CHR 0x9C, CHR 0x85] @ '' Market prices updated''"

definition failed_msg :: string where
  "failed_msg = [CHR 0xE2, CHR 0x9D, CHR 0x8C] @ '' Failed to update prices''"

section \<open>The object literal of \<^verbatim>\<open>savePricesToDB\<close>\<close>

text \<open>Decimal rendering of an array index, as a property key.\<close>

fun index_key :: "nat \<Rightarrow> string" where
  "index_key n =
     (if n < 10 then [''0123456789'' ! n]
      else index_key (n div 10) @ [''0123456789'' ! (n mod 10)])"

text \<open>The equation is unfolded by hand: it rewrites \<open>index_key\<close> into itself.\<close>

declare index_key.simps [simp del]

text \<open>
  \<^verbatim>\<open>{...data}\<close> copies the own enumerable properties of \<^verbatim>\<open>data\<close>: the fields of an
  object, the indexed elements of an array, the indexed characters of a string, and
  nothing for \<^verbatim>\<open>null\<close>, a boolean or a number.
\<close>

fun ownProps :: "json \<Rightarrow> doc" where
  "ownProps (JObj m) = m"
| "ownProps (JArr xs) = fmap_of_list (zip (map index_key [0..<length xs]) xs)"
| "ownProps (JStr s) =
     fmap_of_list (zip (map index_key [0..<length s]) (map (\<lambda>c. JStr [c]) s))"
| "ownProps _ = fmempty"

text \<open>
  \<^verbatim>\<open>{ ...data, updatedAt: new Date().toISOString() }\<close>, with \<open>t\<close> the ISO string: the
  later property wins over a spread one of the same name.
\<close>

definition priceDoc :: "string \<Rightarrow> json \<Rightarrow> doc" where
  "priceDoc t data = fmupd ''updatedAt'' (JStr t) (ownProps data)"

section \<open>\<^verbatim>\<open>utils/market.js\<close>\<close>

text \<open>
  An async function is a function of the world that returns the settled promise
  (\<open>Inl\<close>: rejected) and the world after it.
\<close>

definition getPricesFromAPI :: "env \<Rightarrow> world \<Rightarrow> (error + json) \<times> world" where
  "getPricesFromAPI e w = (http_get e, emit (HttpGet market_url) w)"

text \<open>\<^verbatim>\<open>set\<close> without a merge option replaces the whole document.\<close>

definition savePricesToDB :: "env \<Rightarrow> json \<Rightarrow> world \<Rightarrow> (error + unit) \<times> world" where
  "savePricesToDB e data w =
     (let d = priceDoc (clock e) data;
          w1 = emit (DbSet market_prices d) w
      in case db_set e of
           Some err \<Rightarrow> (Inl err, w1)
         | None \<Rightarrow> (Inr (), w1\<lparr>store := (store w1)(market_prices \<mapsto> d)\<rparr>))"

definition getCachedPrices :: "env \<Rightarrow> world \<Rightarrow> (error + doc option) \<times> world" where
  "getCachedPrices e w =
     (let w1 = emit (DbGet market_prices) w
      in case db_get e of
           Some err \<Rightarrow> (Inl err, w1)
         | None \<Rightarrow> (Inr (store w1 market_prices), w1))"

section \<open>\<^verbatim>\<open>tasks/updateMarketPrices.js\<close>\<close>

text \<open>The body of the \<^verbatim>\<open>try\<close> block.\<close>

definition updateMarketPrices_try :: "env \<Rightarrow> world \<Rightarrow> (error + unit) \<times> world" where
  "updateMarketPrices_try e w =
     (case getPricesFromAPI e w of
        (Inl err, w1) \<Rightarrow> (Inl err, w1)
      | (Inr prices, w1) \<Rightarrow>
          (case savePricesToDB e prices w1 of
             (Inl err, w2) \<Rightarrow> (Inl err, w2)
           | (Inr u, w2) \<Rightarrow> (Inr (), emit (ConsoleLog updated_msg) w2)))"

text \<open>The task: the \<^verbatim>\<open>catch\<close> clause logs whatever the body threw and returns.\<close>

definition updateMarketPrices :: "env \<Rightarrow> world \<Rightarrow> (error + unit) \<times> world" where
  "updateMarketPrices e w =
     (case updateMarketPrices_try e w of
        (Inl err, w1) \<Rightarrow> (Inr (), emit (ConsoleError failed_msg err) w1)
      | (Inr u, w1) \<Rightarrow> (Inr (), w1))"

section \<open>The handler of \<^verbatim>\<open>GET /api/market\<close>\<close>

text \<open>No \<^verbatim>\<open>try\<close> here: a rejected read leaves the handler before \<^verbatim>\<open>res.json\<close>.\<close>

definition market_handler :: "env \<Rightarrow> world \<Rightarrow> (error + unit) \<times> world" where
  "market_handler e w =
     (case getCachedPrices e w of
        (Inl err, w1) \<Rightarrow> (Inl err, w1)
      | (Inr data, w1) \<Rightarrow> (Inr (), emit (ResJson data) w1))"

section \<open>Runs in sequence\<close>

text \<open>The \<^verbatim>\<open>updatedAt\<close> string of the stored market document, when there is one.\<close>

definition stored_updatedAt :: "world \<Rightarrow> string option" where
  "stored_updatedAt w =
     (case store w market_prices of
        None \<Rightarrow> None
      | Some d \<Rightarrow> (case fmlookup d ''updatedAt'' of Some (JStr t) \<Rightarrow> Some t | _ \<Rightarrow> None))"

text \<open>One field of the stored market document, and the names of all its fields.\<close>

definition stored_field :: "world \<Rightarrow> string \<Rightarrow> json option" where
  "stored_field w k = (case store w market_prices of None \<Rightarrow> None | Some d \<Rightarrow> fmlookup d k)"

definition stored_fields :: "world \<Rightarrow> string set" where
  "stored_fields w = (case store w market_prices of None \<Rightarrow> {} | Some d \<Rightarrow> fmdom' d)"

text \<open>
  Successive calls of \<^verbatim>\<open>savePricesToDB\<close>, each with its own answers of the outside
  world, and the \<^verbatim>\<open>updatedAt\<close> a reader finds after each of them.
\<close>

fun updatedAt_history :: "(env \<times> json) list \<Rightarrow> world \<Rightarrow> string option list" where
  "updatedAt_history [] w = []"
| "updatedAt_history ((e, d) # ps) w =
     (let w' = snd (savePricesToDB e d w)
      in stored_updatedAt w' # updatedAt_history ps w')"

text \<open>Successive runs of the task, one per scheduled tick, each awaited to its end.\<close>

fun refreshAll :: "env list \<Rightarrow> world \<Rightarrow> world" where
  "refreshAll [] w = w"
| "refreshAll (e # es) w = refreshAll es (snd (updateMarketPrices e w))"

text \<open>A run fails when the request or the write is rejected.\<close>

definition refresh_fails :: "env \<Rightarrow> bool" where
  "refresh_fails e = (isl (http_get e) \<or> db_set e \<noteq> None)"

definition count_sets :: "effect list \<Rightarrow> nat" where
  "count_sets xs = length (filter (\<lambda>x. case x of DbSet p d \<Rightarrow> True | _ \<Rightarrow> False) xs)"

definition count_reads :: "effect list \<Rightarrow> nat" where
  "count_reads xs = length (filter (\<lambda>x. case x of DbGet p \<Rightarrow> True | _ \<Rightarrow> False) xs)"

definition count_fetches :: "effect list \<Rightarrow> nat" where
  "count_fetches xs = length (filter (\<lambda>x. case x of HttpGet u \<Rightarrow> True | _ \<Rightarrow> False) xs)"

definition count_responses :: "effect list \<Rightarrow> nat" where
  "count_responses xs = length (filter (\<lambda>x. case x of ResJson v \<Rightarrow> True | _ \<Rightarrow> False) xs)"

section \<open>The task as the scheduler runs it\<close>

text \<open>
  \<^verbatim>\<open>cron.schedule(expr, updateMarketPrices)\<close> calls the async function at every tick
  and does not wait for the promise it returns. A call runs to its first \<^verbatim>\<open>await\<close>
  (the request is sent), resumes when the request settles (the document is built and
  the write is sent, or the error is logged) and resumes once more when the write
  settles. Between these points other calls may start or resume. The task keeps no flag
  and tests none.
\<close>

datatype task =
    AwaitFetch
  | AwaitSave doc
  | Finished

record sys =
  sworld :: world
  tasks :: "task list"

text \<open>
  \<open>FetchDone i r t\<close>: the request of call \<open>i\<close> settles with \<open>r\<close> while the clock reads
  \<open>t\<close>; \<open>SaveDone i r\<close>: the write of call \<open>i\<close> settles with \<open>r\<close>.
\<close>

datatype event =
    Tick
  | FetchDone nat "error + json" string
  | SaveDone nat "error option"

fun step :: "event \<Rightarrow> sys \<Rightarrow> sys" where
  "step Tick s =
     s\<lparr>sworld := emit (HttpGet market_url) (sworld s), tasks := tasks s @ [AwaitFetch]\<rparr>"
| "step (FetchDone i r t) s =
     (if i < length (tasks s) \<and> tasks s ! i = AwaitFetch then
        (case r of
           Inl err \<Rightarrow>
             s\<lparr>sworld := emit (ConsoleError failed_msg err) (sworld s),
               tasks := (tasks s)[i := Finished]\<rparr>
         | Inr data \<Rightarrow>
             s\<lparr>sworld := emit (DbSet market_prices (priceDoc t data)) (sworld s),
               tasks := (tasks s)[i := AwaitSave (priceDoc t data)]\<rparr>)
      else s)"
| "step (SaveDone i r) s =
     (case (if i < length (tasks s) then tasks s ! i else Finished) of
        AwaitSave d \<Rightarrow>
          (case r of
             Some err \<Rightarrow>
               s\<lparr>sworld := emit (ConsoleError failed_msg err) (sworld s),
                 tasks := (tasks s)[i := Finished]\<rparr>
           | None \<Rightarrow>
               s\<lparr>sworld := emit (ConsoleLog updated_msg)
                             ((sworld s)\<lparr>store := (store (sworld s))(market_prices \<mapsto> d)\<rparr>),
                 tasks := (tasks s)[i := Finished]\<rparr>)
      | _ \<Rightarrow> s)"

definition in_flight :: "sys \<Rightarrow> nat" where
  "in_flight s = length (filter (\<lambda>t. t \<noteq> Finished) (tasks s))"

section \<open>Concrete runs\<close>

definition rice_payload :: json where
  "rice_payload = JObj (fmupd ''rice'' (JNum (65 / 2)) fmempty)"

definition world0 :: world where
  "world0 = \<lparr>store = (\<lambda>p. None), trace = []\<rparr>"

definition env_ok :: env where
  "env_ok = \<lparr>tick_time = ''2024-06-01T09:00:00.000Z'', http_get = Inr rice_payload,
            clock = ''2024-06-01T09:00:01.250Z'', db_set = None, db_get = None\<rparr>"

definition env_fetch_fails :: env where
  "env_fetch_fails = env_ok\<lparr>http_get := Inl Timeout\<rparr>"

definition env_write_fails :: env where
  "env_write_fails = env_ok\<lparr>db_set := Some (DbError ''unavailable'')\<rparr>"

definition env_read_fails :: env where
  "env_read_fails = env_ok\<lparr>db_get := Some (DbError ''unavailable'')\<rparr>"

definition env_empty_payload :: env where
  "env_empty_payload = env_ok\<lparr>http_get := Inr (JObj fmempty)\<rparr>"

definition env_earlier :: env where
  "env_earlier = env_ok\<lparr>clock := ''2024-06-01T08:59:00.000Z''\<rparr>"

definition sys0 :: sys where
  "sys0 = \<lparr>sworld = world0, tasks = []\<rparr>"

text \<open>A store that already holds a market document, and a payload with its own stamp.\<close>

definition old_doc :: doc where
  "old_doc = fmupd ''updatedAt'' (JStr ''2024-05-31T15:00:01.000Z'')
               (fmupd ''wheat'' (JNum 12) (fmupd ''rice'' (JNum 30) fmempty))"

definition world_old :: world where
  "world_old = \<lparr>store = (\<lambda>p. None)(market_prices \<mapsto> old_doc), trace = []\<rparr>"

definition stamped_payload :: json where
  "stamped_payload =
     JObj (fmupd ''updatedAt'' (JStr ''yesterday'')
            (fmupd ''maize'' (JNum 7) (fmupd ''rice'' (JNum (65 / 2)) fmempty)))"

definition env_stamped :: env where
  "env_stamped = env_ok\<lparr>http_get := Inr stamped_payload\<rparr>"

text \<open>Payloads that are not objects: an array, a string and \<^verbatim>\<open>null\<close>.\<close>

definition env_array :: env where
  "env_array = env_ok\<lparr>http_get := Inr (JArr [JStr ''rice'', JNum 2])\<rparr>"

definition env_string :: env where
  "env_string = env_ok\<lparr>http_get := Inr (JStr ''ok'')\<rparr>"

definition env_null :: env where
  "env_null = env_ok\<lparr>http_get := Inr JNull\<rparr>"

section \<open>What one run does\<close>

lemma updateMarketPrices_fetch_rejected:
  assumes "http_get e = Inl err"
  shows "updateMarketPrices e w =
           (Inr (), w\<lparr>trace := trace w @ [HttpGet market_url, ConsoleError failed_msg err]\<rparr>)"
  using assms
  by (simp add: updateMarketPrices_def updateMarketPrices_try_def getPricesFromAPI_def emit_def)

lemma updateMarketPrices_write_rejected:
  assumes "http_get e = Inr data" and "db_set e = Some err"
  shows "updateMarketPrices e w =
           (Inr (), w\<lparr>trace := trace w @
              [HttpGet market_url, DbSet market_prices (priceDoc (clock e) data),
               ConsoleError failed_msg err]\<rparr>)"
  using assms
  by (simp add: updateMarketPrices_def updateMarketPrices_try_def getPricesFromAPI_def
      savePricesToDB_def emit_def Let_def)

lemma updateMarketPrices_written:
  assumes "http_get e = Inr data" and "db_set e = None"
  shows "updateMarketPrices e w =
           (Inr (), w\<lparr>store := (store w)(market_prices \<mapsto> priceDoc (clock e) data),
              trace := trace w @
                [HttpGet market_url, DbSet market_prices (priceDoc (clock e) data),
                 ConsoleLog updated_msg]\<rparr>)"
  using assms
  by (simp add: updateMarketPrices_def updateMarketPrices_try_def getPricesFromAPI_def
      savePricesToDB_def emit_def Let_def)

lemma updateMarketPrices_returns: "fst (updateMarketPrices e w) = Inr ()"
  by (simp add: updateMarketPrices_def split: prod.splits sum.splits)

text \<open>
  One call taken alone through the scheduler's steps is the task run to its end.
\<close>

lemma step_alone:
  "sworld (step (SaveDone 0 (db_set e))
            (step (FetchDone 0 (http_get e) (clock e))
              (step Tick \<lparr>sworld = w, tasks = []\<rparr>)))
   = snd (updateMarketPrices e w)"
proof (cases "http_get e")
  case (Inl err)
  then show ?thesis
    by (simp add: updateMarketPrices_fetch_rejected emit_def)
next
  case (Inr data)
  show ?thesis
  proof (cases "db_set e")
    case None
    with Inr show ?thesis
      by (simp add: updateMarketPrices_written emit_def)
  next
    case (Some err)
    with Inr show ?thesis
      by (simp add: updateMarketPrices_write_rejected emit_def)
  qed
qed

section \<open>The stored document\<close>

text \<open>
  Property keys of array elements: \<open>index_key\<close> writes the index in decimal, so
  different indices give different keys and none of them is \<^verbatim>\<open>updatedAt\<close>.
\<close>

lemma digit_nth_inj:
  assumes "a < 10" and "b < 10" and "''0123456789'' ! a = ''0123456789'' ! b"
  shows "a = b"
proof -
  have "distinct ''0123456789''" by simp
  moreover have "a < length ''0123456789''" "b < length ''0123456789''"
    using assms by simp_all
  ultimately show ?thesis
    using assms(3) by (simp only: nth_eq_iff_index_eq)
qed

lemma index_key_nonempty: "index_key n \<noteq> []"
  by (subst index_key.simps) simp

lemma index_key_last: "last (index_key n) = ''0123456789'' ! (n mod 10)"
  by (subst index_key.simps) simp

lemma index_key_inj: "index_key a = index_key b \<Longrightarrow> a = b"
proof (induction a arbitrary: b rule: index_key.induct)
  case (1 a)
  have l: "''0123456789'' ! (a mod 10) = ''0123456789'' ! (b mod 10)"
    using "1.prems" index_key_last [of a] index_key_last [of b] by simp
  have m: "a mod 10 = b mod 10"
    by (rule digit_nth_inj [OF _ _ l]) simp_all
  show ?case
  proof (cases "a < 10")
    case True
    have "b < 10"
    proof (rule ccontr)
      assume "\<not> b < 10"
      then have "index_key b = index_key (b div 10) @ [''0123456789'' ! (b mod 10)]"
        by (subst index_key.simps) simp
      moreover have "index_key a = [''0123456789'' ! a]"
        using True by (subst index_key.simps) simp
      ultimately show False
        using "1.prems" index_key_nonempty [of "b div 10"] by simp
    qed
    with True m show ?thesis by simp
  next
    case False
    have "\<not> b < 10"
    proof
      assume b: "b < 10"
      have "index_key a = index_key (a div 10) @ [''0123456789'' ! (a mod 10)]"
        using False by (subst index_key.simps) simp
      moreover have "index_key b = [''0123456789'' ! b]"
        using b by (subst index_key.simps) simp
      ultimately show False
        using "1.prems" index_key_nonempty [of "a div 10"] by simp
    qed
    with False "1.prems" have "index_key (a div 10) = index_key (b div 10)"
      by (subst (asm) index_key.simps, subst (asm) (2) index_key.simps) simp
    with False "1.IH" have "a div 10 = b div 10" by blast
    with m show ?thesis
      by (metis div_mult_mod_eq)
  qed
qed

lemma index_key_decimal:
  "foldl (\<lambda>v c. 10 * v + (of_char c - 48)) 0 (index_key n) = (n::nat)"
proof (induction n rule: index_key.induct)
  case (1 n)
  have d: "\<And>k. k < 10 \<Longrightarrow> of_char (''0123456789'' ! k) - 48 = (k::nat)"
  proof -
    fix k :: nat
    assume "k < 10"
    then consider "k = 0" | "k = 1" | "k = 2" | "k = 3" | "k = 4" | "k = 5" | "k = 6"
      | "k = 7" | "k = 8" | "k = 9"
      by atomize_elim arith
    then show "of_char (''0123456789'' ! k) - 48 = k"
      by cases simp_all
  qed
  show ?case
  proof (cases "n < 10")
    case True
    then show ?thesis
      by (subst index_key.simps) (simp add: d)
  next
    case False
    with "1.IH" have "foldl (\<lambda>v c. 10 * v + (of_char c - 48)) 0 (index_key (n div 10)) = n div 10"
      by simp
    with False show ?thesis
      by (subst index_key.simps) (simp add: d)
  qed
qed

lemma index_key_not_updatedAt: "index_key n \<noteq> ''updatedAt''"
proof
  assume "index_key n = ''updatedAt''"
  then have "last (index_key n) = CHR ''t''" by simp
  then have "''0123456789'' ! (n mod 10) = CHR ''t''"
    by (simp only: index_key_last)
  moreover have "''0123456789'' ! (n mod 10) \<in> set ''0123456789''"
    by (rule nth_mem) simp
  ultimately show False by simp
qed

lemma index_keys_distinct: "distinct (map index_key [0..<n])"
  by (simp add: distinct_map inj_on_def index_key_inj)

lemma indexed_lookup:
  assumes "i < length ys"
  shows "fmlookup (fmap_of_list (zip (map index_key [0..<length ys]) ys)) (index_key i)
           = Some (ys ! i)"
proof -
  have "map_of (zip (map index_key [0..<length ys]) ys) (map index_key [0..<length ys] ! i)
          = Some (ys ! i)"
    using assms by (intro map_of_zip_nth) (simp_all add: index_keys_distinct)
  with assms show ?thesis by (simp add: fmlookup_of_list)
qed

lemma indexed_dom:
  "fmdom' (fmap_of_list (zip (map index_key [0..<length ys]) ys)) = index_key ` {..<length ys}"
proof -
  have "fmdom' (fmap_of_list (zip (map index_key [0..<length ys]) ys))
          = dom (map_of (zip (map index_key [0..<length ys]) ys))"
    by (simp only: fmdom'.rep_eq fmlookup_of_list)
  also have "\<dots> = set (map index_key [0..<length ys])"
    by (rule dom_map_of_zip) simp
  also have "\<dots> = index_key ` {..<length ys}"
    by (simp add: lessThan_atLeast0)
  finally show ?thesis .
qed

text \<open>
  Claim C9. After a market refresh whose request and write both succeed, the stored
  document is replaced as a whole: it is the fetched payload's own properties with
  \<^verbatim>\<open>updatedAt\<close> set to the clock reading taken when the save runs. For a payload
  that is an object with fields \<open>m\<close> the stored document is exactly \<open>m\<close> with
  \<^verbatim>\<open>updatedAt\<close> set; for an array or a string it has the elements or characters under
  their decimal indices, \<^verbatim>\<open>updatedAt\<close>, and nothing else; for \<^verbatim>\<open>null\<close>, a boolean or
  a number it has \<^verbatim>\<open>updatedAt\<close> alone. A field \<^verbatim>\<open>updatedAt\<close> of the payload is
  overwritten, the result is the same whatever document was stored before, and the time
  of the tick plays no part.
\<close>

theorem market_document_replaced_wholesale:
  assumes "http_get e = Inr data" and "db_set e = None"
  shows "store (snd (updateMarketPrices e w)) market_prices = Some (priceDoc (clock e) data)
       \<and> fmlookup (priceDoc (clock e) data) k =
           (if k = ''updatedAt'' then Some (JStr (clock e)) else fmlookup (ownProps data) k)
       \<and> store (snd (updateMarketPrices e w')) market_prices =
           store (snd (updateMarketPrices e w)) market_prices
       \<and> updateMarketPrices (e\<lparr>tick_time := tick\<rparr>) w = updateMarketPrices e w
       \<and> (data = JObj m \<longrightarrow>
            store (snd (updateMarketPrices e w)) market_prices
              = Some (fmupd ''updatedAt'' (JStr (clock e)) m))
       \<and> (data = JArr xs \<longrightarrow>
            stored_fields (snd (updateMarketPrices e w))
              = insert ''updatedAt'' (index_key ` {..<length xs})
            \<and> stored_field (snd (updateMarketPrices e w)) ''updatedAt'' = Some (JStr (clock e))
            \<and> (i < length xs \<longrightarrow>
                 stored_field (snd (updateMarketPrices e w)) (index_key i) = Some (xs ! i)))
       \<and> (data = JStr s \<longrightarrow>
            stored_fields (snd (updateMarketPrices e w))
              = insert ''updatedAt'' (index_key ` {..<length s})
            \<and> stored_field (snd (updateMarketPrices e w)) ''updatedAt'' = Some (JStr (clock e))
            \<and> (i < length s \<longrightarrow>
                 stored_field (snd (updateMarketPrices e w)) (index_key i)
                   = Some (JStr [s ! i])))
       \<and> (data = JNull \<or> data = JBool b \<or> data = JNum q \<longrightarrow>
            store (snd (updateMarketPrices e w)) market_prices
              = Some (fmupd ''updatedAt'' (JStr (clock e)) fmempty))"
proof -
  have a: "http_get (e\<lparr>tick_time := tick\<rparr>) = Inr data" "db_set (e\<lparr>tick_time := tick\<rparr>) = None"
    using assms by simp_all
  note u = updateMarketPrices_written [OF assms]
  have base: "store (snd (updateMarketPrices e w)) market_prices = Some (priceDoc (clock e) data)
       \<and> fmlookup (priceDoc (clock e) data) k =
           (if k = ''updatedAt'' then Some (JStr (clock e)) else fmlookup (ownProps data) k)
       \<and> store (snd (updateMarketPrices e w')) market_prices =
           store (snd (updateMarketPrices e w)) market_prices
       \<and> updateMarketPrices (e\<lparr>tick_time := tick\<rparr>) w = updateMarketPrices e w"
    by (simp add: u updateMarketPrices_written [OF a] priceDoc_def)
  have obj: "data = JObj m \<longrightarrow>
            store (snd (updateMarketPrices e w)) market_prices
              = Some (fmupd ''updatedAt'' (JStr (clock e)) m)"
    by (simp add: u priceDoc_def)
  have sf: "stored_fields (snd (updateMarketPrices e w)) = insert ''updatedAt'' (fmdom' (ownProps data))"
    by (simp add: u stored_fields_def priceDoc_def)
  have sl: "\<And>k. stored_field (snd (updateMarketPrices e w)) k =
           (if k = ''updatedAt'' then Some (JStr (clock e)) else fmlookup (ownProps data) k)"
    by (simp add: u stored_field_def priceDoc_def)
  have arr: "data = JArr xs \<longrightarrow>
            stored_fields (snd (updateMarketPrices e w))
              = insert ''updatedAt'' (index_key ` {..<length xs})
            \<and> stored_field (snd (updateMarketPrices e w)) ''updatedAt'' = Some (JStr (clock e))
            \<and> (i < length xs \<longrightarrow>
                 stored_field (snd (updateMarketPrices e w)) (index_key i) = Some (xs ! i))"
    by (simp add: sf sl indexed_dom indexed_lookup index_key_not_updatedAt)
  have str: "data = JStr s \<longrightarrow>
            stored_fields (snd (updateMarketPrices e w))
              = insert ''updatedAt'' (index_key ` {..<length s})
            \<and> stored_field (snd (updateMarketPrices e w)) ''updatedAt'' = Some (JStr (clock e))
            \<and> (i < length s \<longrightarrow>
                 stored_field (snd (updateMarketPrices e w)) (index_key i)
                   = Some (JStr [s ! i]))"
  proof
    assume d: "data = JStr s"
    have l: "length (map (\<lambda>c. JStr [c]) s) = length s" by simp
    have "fmdom' (ownProps data) = index_key ` {..<length s}"
      using indexed_dom [of "map (\<lambda>c. JStr [c]) s"] by (simp add: d)
    moreover have "i < length s \<Longrightarrow> fmlookup (ownProps data) (index_key i) = Some (JStr [s ! i])"
      using indexed_lookup [of i "map (\<lambda>c. JStr [c]) s"] by (simp add: d)
    ultimately show "stored_fields (snd (updateMarketPrices e w))
              = insert ''updatedAt'' (index_key ` {..<length s})
            \<and> stored_field (snd (updateMarketPrices e w)) ''updatedAt'' = Some (JStr (clock e))
            \<and> (i < length s \<longrightarrow>
                 stored_field (snd (updateMarketPrices e w)) (index_key i)
                   = Some (JStr [s ! i]))"
      by (simp add: sf sl index_key_not_updatedAt)
  qed
  have sca: "data = JNull \<or> data = JBool b \<or> data = JNum q \<longrightarrow>
            store (snd (updateMarketPrices e w)) market_prices
              = Some (fmupd ''updatedAt'' (JStr (clock e)) fmempty)"
    by (auto simp: u priceDoc_def)
  from base obj arr str sca show ?thesis by blast
qed

theorem market_document_replaced_wholesale_witness:
  "http_get env_stamped = Inr stamped_payload \<and> db_set env_stamped = None
   \<and> store (snd (updateMarketPrices env_stamped world_old)) market_prices
       = Some (fmupd ''updatedAt'' (JStr ''2024-06-01T09:00:01.250Z'')
                (fmupd ''maize'' (JNum 7) (fmupd ''rice'' (JNum (65 / 2)) fmempty)))
   \<and> stored_field (snd (updateMarketPrices env_stamped world_old)) ''updatedAt''
       = Some (JStr ''2024-06-01T09:00:01.250Z'')
   \<and> stored_field (snd (updateMarketPrices env_stamped world_old)) ''rice''
       = Some (JNum (65 / 2))
   \<and> stored_field (snd (updateMarketPrices env_stamped world_old)) ''maize'' = Some (JNum 7)
   \<and> stored_field (snd (updateMarketPrices env_stamped world_old)) ''wheat'' = None
   \<and> stored_field world_old ''wheat'' = Some (JNum 12)
   \<and> stored_fields (snd (updateMarketPrices env_stamped world_old))
       = {''updatedAt'', ''maize'', ''rice''}
   \<and> store (snd (updateMarketPrices env_stamped world0)) market_prices
       = store (snd (updateMarketPrices env_stamped world_old)) market_prices
   \<and> http_get env_array = Inr (JArr [JStr ''rice'', JNum 2]) \<and> db_set env_array = None
   \<and> stored_fields (snd (updateMarketPrices env_array world_old)) = {''updatedAt'', ''0'', ''1''}
   \<and> stored_field (snd (updateMarketPrices env_array world_old)) ''1'' = Some (JNum 2)
   \<and> http_get env_string = Inr (JStr ''ok'') \<and> db_set env_string = None
   \<and> stored_fields (snd (updateMarketPrices env_string world_old)) = {''updatedAt'', ''0'', ''1''}
   \<and> stored_field (snd (updateMarketPrices env_string world_old)) ''1'' = Some (JStr ''k'')
   \<and> http_get env_null = Inr JNull \<and> db_set env_null = None
   \<and> store (snd (updateMarketPrices env_null world_old)) market_prices
       = Some (fmupd ''updatedAt'' (JStr ''2024-06-01T09:00:01.250Z'') fmempty)"
proof -
  have h: "http_get env_stamped = Inr stamped_payload" "db_set env_stamped = None"
    and c: "clock env_stamped = ''2024-06-01T09:00:01.250Z''"
    by (simp_all add: env_stamped_def env_ok_def)
  have ha: "http_get env_array = Inr (JArr [JStr ''rice'', JNum 2])" "db_set env_array = None"
    and ca: "clock env_array = ''2024-06-01T09:00:01.250Z''"
    by (simp_all add: env_array_def env_ok_def)
  have hs: "http_get env_string = Inr (JStr ''ok'')" "db_set env_string = None"
    and cs: "clock env_string = ''2024-06-01T09:00:01.250Z''"
    by (simp_all add: env_string_def env_ok_def)
  have hn: "http_get env_null = Inr JNull" "db_set env_null = None"
    and cn: "clock env_null = ''2024-06-01T09:00:01.250Z''"
    by (simp_all add: env_null_def env_ok_def)
  have k: "index_key 0 = ''0''" "index_key 1 = ''1''" "index_key (Suc 0) = ''1''"
    by (simp_all add: index_key.simps)
  have o: "stored_field world_old ''wheat'' = Some (JNum 12)"
    by (simp add: stored_field_def world_old_def old_doc_def)
  note t = market_document_replaced_wholesale [OF h, where w = world_old and w' = world0
      and k = "''rice''" and tick = "''''" and xs = "[]" and i = 0 and s = "''''" and b = True
      and q = 0 and m = "fmupd ''updatedAt'' (JStr ''yesterday'')
         (fmupd ''maize'' (JNum 7) (fmupd ''rice'' (JNum (65 / 2)) fmempty))"]
  have s: "store (snd (updateMarketPrices env_stamped world_old)) market_prices
       = Some (fmupd ''updatedAt'' (JStr ''2024-06-01T09:00:01.250Z'')
                (fmupd ''maize'' (JNum 7) (fmupd ''rice'' (JNum (65 / 2)) fmempty)))"
    using t by (elim conjE) (simp add: c stamped_payload_def)
  have i: "store (snd (updateMarketPrices env_stamped world0)) market_prices
       = store (snd (updateMarketPrices env_stamped world_old)) market_prices"
    using t by (elim conjE)
  have f: "stored_field (snd (updateMarketPrices env_stamped world_old)) ''updatedAt''
       = Some (JStr ''2024-06-01T09:00:01.250Z'')"
    "stored_field (snd (updateMarketPrices env_stamped world_old)) ''rice'' = Some (JNum (65 / 2))"
    "stored_field (snd (updateMarketPrices env_stamped world_old)) ''maize'' = Some (JNum 7)"
    "stored_field (snd (updateMarketPrices env_stamped world_old)) ''wheat'' = None"
    "stored_fields (snd (updateMarketPrices env_stamped world_old))
       = {''updatedAt'', ''maize'', ''rice''}"
    by (simp_all add: stored_field_def stored_fields_def s)
  note ta = market_document_replaced_wholesale [OF ha, where w = world_old
      and w' = world0 and k = "''1''" and tick = "''''" and m = fmempty and s = "''''"
      and b = True and q = 0 and xs = "[JStr ''rice'', JNum 2]" and i = 1]
  have a1: "stored_fields (snd (updateMarketPrices env_array world_old))
       = {''updatedAt'', ''0'', ''1''}"
    using ta by (elim conjE) (auto simp: k lessThan_Suc)
  have a2: "stored_field (snd (updateMarketPrices env_array world_old)) ''1'' = Some (JNum 2)"
    using ta by (elim conjE) (auto simp: k lessThan_Suc)
  note ts = market_document_replaced_wholesale [OF hs, where w = world_old
      and w' = world0 and k = "''1''" and tick = "''''" and m = fmempty and xs = "[]"
      and b = True and q = 0 and s = "''ok''" and i = 1]
  have b1: "stored_fields (snd (updateMarketPrices env_string world_old))
       = {''updatedAt'', ''0'', ''1''}"
    using ts by (elim conjE) (auto simp: k lessThan_Suc)
  have b2: "stored_field (snd (updateMarketPrices env_string world_old)) ''1''
       = Some (JStr ''k'')"
    using ts by (elim conjE) (auto simp: k lessThan_Suc)
  have z: "store (snd (updateMarketPrices env_null world_old)) market_prices
       = Some (fmupd ''updatedAt'' (JStr ''2024-06-01T09:00:01.250Z'') fmempty)"
    using market_document_replaced_wholesale [OF hn, where w = world_old
        and w' = world0 and k = "''1''" and tick = "''''" and m = fmempty and xs = "[]"
        and b = True and q = 0 and s = "''''" and i = 0]
    by (elim conjE) (simp add: cn)
  show ?thesis
    using h ha hs hn o s i f a1 a2 b1 b2 z by simp
qed

section \<open>The read path\<close>

text \<open>
  Claim C10. When the Firestore read inside \<^verbatim>\<open>getCachedPrices\<close> is rejected, the
  handler of \<^verbatim>\<open>GET /api/market\<close> is left with that rejection: \<^verbatim>\<open>res.json\<close> is not
  called and nothing stands in for the missing answer, whereas the refresh task under
  the same conditions returns normally.
\<close>

theorem market_handler_read_rejection_propagates:
  assumes "db_get e = Some err"
  shows "market_handler e w = (Inl err, w\<lparr>trace := trace w @ [DbGet market_prices]\<rparr>)
       \<and> count_responses (trace (snd (market_handler e w))) = count_responses (trace w)
       \<and> fst (updateMarketPrices e w) = Inr ()"
  using assms
  by (simp add: market_handler_def getCachedPrices_def emit_def count_responses_def
      updateMarketPrices_returns)

theorem market_handler_read_rejection_propagates_witness:
  "db_get env_read_fails = Some (DbError ''unavailable'')
   \<and> fst (market_handler env_read_fails world_old) = Inl (DbError ''unavailable'')
   \<and> trace (snd (market_handler env_read_fails world_old)) = [DbGet market_prices]
   \<and> count_responses (trace (snd (market_handler env_read_fails world_old))) = 0
   \<and> fst (updateMarketPrices env_read_fails world_old) = Inr ()"
proof -
  have h: "db_get env_read_fails = Some (DbError ''unavailable'')"
    by (simp add: env_read_fails_def env_ok_def)
  show ?thesis
    using h market_handler_read_rejection_propagates [OF h, of world_old]
    by (simp add: world_old_def count_responses_def)
qed

section \<open>A refresh that fails\<close>

lemma refresh_fails_store: "refresh_fails e \<Longrightarrow> store (snd (updateMarketPrices e w)) = store w"
proof (cases "http_get e")
  case (Inl err)
  then show ?thesis by (simp add: updateMarketPrices_fetch_rejected)
next
  case (Inr data)
  assume "refresh_fails e"
  with Inr obtain err where "db_set e = Some err"
    by (auto simp: refresh_fails_def)
  with Inr show ?thesis by (simp add: updateMarketPrices_write_rejected)
qed

lemma refreshAll_fails_store:
  "\<forall>e \<in> set es. refresh_fails e \<Longrightarrow> store (refreshAll es w) = store w"
  by (induction es arbitrary: w) (simp_all add: refresh_fails_store)

lemma refreshAll_frame: "p \<noteq> market_prices \<Longrightarrow> store (refreshAll es w) p = store w p"
proof (induction es arbitrary: w)
  case Nil
  then show ?case by simp
next
  case (Cons e es)
  have "store (snd (updateMarketPrices e w)) p = store w p"
  proof (cases "http_get e")
    case (Inl err)
    then show ?thesis by (simp add: updateMarketPrices_fetch_rejected)
  next
    case (Inr data)
    then show ?thesis
      using Cons.prems
      by (cases "db_set e")
        (simp_all add: updateMarketPrices_written updateMarketPrices_write_rejected)
  qed
  with Cons show ?case by simp
qed

text \<open>
  Claim C3, as stated, fails on one point. A run whose request is rejected returns the
  same value as a run that succeeds, \<^verbatim>\<open>undefined\<close>: the \<^verbatim>\<open>catch\<close> clause logs and
  returns, so no failure result comes back.
\<close>

theorem fetch_failure_returns_no_failure_result:
  "http_get env_fetch_fails = Inl Timeout
   \<and> http_get env_ok = Inr rice_payload \<and> db_set env_ok = None
   \<and> fst (updateMarketPrices env_fetch_fails world_old) = Inr ()
   \<and> fst (updateMarketPrices env_ok world_old) = Inr ()"
  by (simp add: updateMarketPrices_returns env_fetch_fails_def env_ok_def)

text \<open>
  Claim C3, amended. When the request is rejected (network error, status outside 2xx,
  timeout), the task logs the error with \<^verbatim>\<open>console.error\<close> and returns normally; the
  write is never called, the store is exactly as before, and a read after the run
  returns what a read before it would have returned.
\<close>

theorem fetch_failure_leaves_store:
  assumes "http_get e = Inl err"
  shows "updateMarketPrices e w =
           (Inr (), w\<lparr>trace := trace w @ [HttpGet market_url, ConsoleError failed_msg err]\<rparr>)
       \<and> store (snd (updateMarketPrices e w)) = store w
       \<and> count_sets (trace (snd (updateMarketPrices e w))) = count_sets (trace w)
       \<and> fst (getCachedPrices e' (snd (updateMarketPrices e w))) = fst (getCachedPrices e' w)"
  using assms
  by (simp add: updateMarketPrices_fetch_rejected count_sets_def getCachedPrices_def emit_def
      Let_def split: option.splits)

theorem fetch_failure_leaves_store_witness:
  "http_get env_fetch_fails = Inl Timeout
   \<and> fst (updateMarketPrices env_fetch_fails world_old) = Inr ()
   \<and> trace (snd (updateMarketPrices env_fetch_fails world_old))
       = [HttpGet market_url, ConsoleError failed_msg Timeout]
   \<and> store (snd (updateMarketPrices env_fetch_fails world_old)) = store world_old
   \<and> fst (getCachedPrices env_ok (snd (updateMarketPrices env_fetch_fails world_old)))
       = Inr (Some old_doc)"
proof -
  have h: "http_get env_fetch_fails = Inl Timeout"
    by (simp add: env_fetch_fails_def env_ok_def)
  have r: "fst (getCachedPrices env_ok world_old) = Inr (Some old_doc)"
    by (simp add: getCachedPrices_def env_ok_def world_old_def emit_def)
  have t: "trace world_old = []"
    by (simp add: world_old_def)
  note c = fetch_failure_leaves_store [OF h, of world_old env_ok]
  have "trace (snd (updateMarketPrices env_fetch_fails world_old))
          = [HttpGet market_url, ConsoleError failed_msg Timeout]"
    by (simp add: c [THEN conjunct1] t)
  then show ?thesis
    using h r c by (elim conjE) (simp add: updateMarketPrices_returns)
qed

text \<open>
  Claim C5, as stated, fails. There is one store, the Firestore document. When the
  request succeeds with \<^verbatim>\<open>{rice: 32.5}\<close> and the write is rejected, a later read still
  returns the old document with \<^verbatim>\<open>rice: 30\<close>.
\<close>

theorem write_failure_publishes_nothing:
  "http_get env_write_fails = Inr rice_payload
   \<and> db_set env_write_fails = Some (DbError ''unavailable'')
   \<and> fst (getCachedPrices env_ok (snd (updateMarketPrices env_write_fails world_old)))
       = Inr (Some old_doc)
   \<and> fmlookup old_doc ''rice'' = Some (JNum 30)
   \<and> fmlookup (ownProps rice_payload) ''rice'' = Some (JNum (65 / 2))"
proof -
  have h: "http_get env_write_fails = Inr rice_payload"
    "db_set env_write_fails = Some (DbError ''unavailable'')"
    by (simp_all add: env_write_fails_def env_ok_def)
  show ?thesis
    using h
    by (simp add: updateMarketPrices_write_rejected [OF h] getCachedPrices_def emit_def
        env_ok_def world_old_def old_doc_def rice_payload_def)
qed

text \<open>
  Claim C5, amended. When the request succeeds and the write is rejected, the error is
  logged with \<^verbatim>\<open>console.error\<close>, nothing is published, the store is exactly as before,
  and a read after the run returns what a read before it would have returned.
\<close>

theorem write_failure_leaves_store:
  assumes "http_get e = Inr data" and "db_set e = Some err"
  shows "updateMarketPrices e w =
           (Inr (), w\<lparr>trace := trace w @
              [HttpGet market_url, DbSet market_prices (priceDoc (clock e) data),
               ConsoleError failed_msg err]\<rparr>)
       \<and> store (snd (updateMarketPrices e w)) = store w
       \<and> fst (getCachedPrices e' (snd (updateMarketPrices e w))) = fst (getCachedPrices e' w)"
  using assms
  by (simp add: updateMarketPrices_write_rejected getCachedPrices_def emit_def
      Let_def split: option.splits)

theorem write_failure_leaves_store_witness:
  "http_get env_write_fails = Inr rice_payload
   \<and> db_set env_write_fails = Some (DbError ''unavailable'')
   \<and> last (trace (snd (updateMarketPrices env_write_fails world_old)))
       = ConsoleError failed_msg (DbError ''unavailable'')
   \<and> store (snd (updateMarketPrices env_write_fails world_old)) = store world_old
   \<and> fst (getCachedPrices env_ok (snd (updateMarketPrices env_write_fails world_old)))
       = fst (getCachedPrices env_ok world_old)"
proof -
  have h: "http_get env_write_fails = Inr rice_payload"
    "db_set env_write_fails = Some (DbError ''unavailable'')"
    by (simp_all add: env_write_fails_def env_ok_def)
  show ?thesis
    using h write_failure_leaves_store [OF h, of world_old env_ok]
    by (elim conjE) simp
qed

text \<open>
  Claim C8. The task never throws: whatever the request and the write answer, it
  returns normally. A rejected request and a rejected write are both caught inside the
  task and logged with \<^verbatim>\<open>console.error\<close>. No number of runs touches a document other
  than \<^verbatim>\<open>market/prices\<close>, and a series of failing runs leaves the whole store as it
  was, so what any other feed reads or writes is unaffected.
\<close>

theorem updateMarketPrices_never_throws:
  "fst (updateMarketPrices e w) = Inr ()
   \<and> (http_get e = Inl err \<longrightarrow>
        last (trace (snd (updateMarketPrices e w))) = ConsoleError failed_msg err)
   \<and> (http_get e = Inr data \<and> db_set e = Some err \<longrightarrow>
        last (trace (snd (updateMarketPrices e w))) = ConsoleError failed_msg err)
   \<and> (p \<noteq> market_prices \<longrightarrow> store (refreshAll es w) p = store w p)
   \<and> ((\<forall>x \<in> set es. refresh_fails x) \<longrightarrow> store (refreshAll es w) = store w)"
proof -
  have "http_get e = Inl err \<Longrightarrow>
        last (trace (snd (updateMarketPrices e w))) = ConsoleError failed_msg err"
    by (simp add: updateMarketPrices_fetch_rejected)
  moreover have "http_get e = Inr data \<and> db_set e = Some err \<Longrightarrow>
        last (trace (snd (updateMarketPrices e w))) = ConsoleError failed_msg err"
    by (simp add: updateMarketPrices_write_rejected)
  ultimately show ?thesis
    using updateMarketPrices_returns refreshAll_frame refreshAll_fails_store by blast
qed

theorem updateMarketPrices_never_throws_witness:
  "http_get env_fetch_fails = Inl Timeout
   \<and> http_get env_write_fails = Inr rice_payload
   \<and> db_set env_write_fails = Some (DbError ''unavailable'')
   \<and> refresh_fails env_fetch_fails \<and> refresh_fails env_write_fails
   \<and> (''weather'', ''current'') \<noteq> market_prices
   \<and> fst (updateMarketPrices env_fetch_fails world_old) = Inr ()
   \<and> last (trace (snd (updateMarketPrices env_fetch_fails world_old)))
       = ConsoleError failed_msg Timeout
   \<and> fst (updateMarketPrices env_write_fails world_old) = Inr ()
   \<and> last (trace (snd (updateMarketPrices env_write_fails world_old)))
       = ConsoleError failed_msg (DbError ''unavailable'')
   \<and> store (refreshAll [env_fetch_fails, env_write_fails, env_fetch_fails] world_old)
         (''weather'', ''current'') = None
   \<and> store (refreshAll [env_fetch_fails, env_write_fails, env_fetch_fails] world_old)
       = store world_old"
proof -
  have h: "http_get env_fetch_fails = Inl Timeout"
    "http_get env_write_fails = Inr rice_payload"
    "db_set env_write_fails = Some (DbError ''unavailable'')"
    by (simp_all add: env_fetch_fails_def env_write_fails_def env_ok_def)
  have f: "refresh_fails env_fetch_fails" "refresh_fails env_write_fails"
    by (simp_all add: refresh_fails_def h)
  have p: "(''weather'', ''current'') \<noteq> market_prices"
    by (simp add: market_prices_def)
  have a: "\<forall>x \<in> set [env_fetch_fails, env_write_fails, env_fetch_fails]. refresh_fails x"
    using f by simp
  have w: "store world_old (''weather'', ''current'') = None"
    by (simp add: world_old_def market_prices_def)
  show ?thesis
    using h f p a w
      updateMarketPrices_never_throws [of env_fetch_fails world_old Timeout rice_payload
        "(''weather'', ''current'')" "[env_fetch_fails, env_write_fails, env_fetch_fails]"]
      updateMarketPrices_never_throws [of env_write_fails world_old "DbError ''unavailable''"
        rice_payload "(''weather'', ''current'')" "[]"]
    by (elim conjE) simp
qed

section \<open>Publishing\<close>

lemma savePricesToDB_written:
  assumes "db_set e = None"
  shows "savePricesToDB e d w =
           (Inr (), w\<lparr>store := (store w)(market_prices \<mapsto> priceDoc (clock e) d),
              trace := trace w @ [DbSet market_prices (priceDoc (clock e) d)]\<rparr>)"
  using assms by (simp add: savePricesToDB_def emit_def Let_def)

lemma stored_updatedAt_written:
  assumes "db_set e = None"
  shows "stored_updatedAt (snd (savePricesToDB e d w)) = Some (clock e)"
  by (simp add: savePricesToDB_written [OF assms] stored_updatedAt_def priceDoc_def)

lemma updatedAt_history_written:
  "\<forall>p \<in> set ps. db_set (fst p) = None \<Longrightarrow>
   updatedAt_history ps w = map (\<lambda>p. Some (clock (fst p))) ps"
proof (induction ps arbitrary: w)
  case Nil
  then show ?case by simp
next
  case (Cons p ps)
  obtain e d where p: "p = (e, d)" by (cases p)
  with Cons.prems have "db_set e = None" by simp
  then have "stored_updatedAt (snd (savePricesToDB e d w)) = Some (clock e)"
    by (rule stored_updatedAt_written)
  with Cons p show ?case by (simp add: Let_def)
qed

lemma sorted_map_Some: "sorted (map (\<lambda>p. Some (f p)) ps) = sorted (map f ps)"
  by (induction ps) simp_all

text \<open>
  Claim C1, as stated, fails. A save at 09:00:01.250 followed by a save whose clock
  reads 08:59:00.000 leaves the earlier stamp in the store: the second save is not
  discarded, and the stored stamp has gone down.
\<close>

theorem savePricesToDB_overwrites_newer:
  "db_set env_ok = None \<and> db_set env_earlier = None
   \<and> stored_updatedAt (snd (savePricesToDB env_ok rice_payload world0))
       = Some ''2024-06-01T09:00:01.250Z''
   \<and> clock env_earlier < ''2024-06-01T09:00:01.250Z''
   \<and> stored_updatedAt (snd (savePricesToDB env_earlier rice_payload
         (snd (savePricesToDB env_ok rice_payload world0))))
       = Some ''2024-06-01T08:59:00.000Z''
   \<and> store (snd (savePricesToDB env_earlier rice_payload
         (snd (savePricesToDB env_ok rice_payload world0)))) market_prices
       = Some (priceDoc ''2024-06-01T08:59:00.000Z'' rice_payload)"
proof -
  have a: "db_set env_ok = None" "db_set env_earlier = None"
    by (simp_all add: env_ok_def env_earlier_def)
  have c: "clock env_ok = ''2024-06-01T09:00:01.250Z''"
    "clock env_earlier = ''2024-06-01T08:59:00.000Z''"
    by (simp_all add: env_ok_def env_earlier_def)
  have 1: "stored_updatedAt (snd (savePricesToDB env_ok rice_payload world0))
             = Some ''2024-06-01T09:00:01.250Z''"
    by (simp add: a c stored_updatedAt_written)
  have 2: "stored_updatedAt (snd (savePricesToDB env_earlier rice_payload
             (snd (savePricesToDB env_ok rice_payload world0))))
             = Some ''2024-06-01T08:59:00.000Z''"
    by (simp add: a c stored_updatedAt_written)
  have 3: "store (snd (savePricesToDB env_earlier rice_payload
             (snd (savePricesToDB env_ok rice_payload world0)))) market_prices
             = Some (priceDoc ''2024-06-01T08:59:00.000Z'' rice_payload)"
    by (simp add: a c savePricesToDB_written)
  have 4: "clock env_earlier < ''2024-06-01T09:00:01.250Z''"
    by (simp add: c)
  show ?thesis
    using a 1 2 3 4 by simp
qed

text \<open>
  Claim C1, amended. Every save whose write succeeds replaces the stored document,
  whatever stamp was stored before; no save is discarded as stale. The stored
  \<^verbatim>\<open>updatedAt\<close> after a save is the clock reading of that save, so over successive
  saves the stored stamps are non-decreasing exactly when the clock readings are.
\<close>

theorem savePricesToDB_replaces_unconditionally:
  assumes "\<forall>p \<in> set ps. db_set (fst p) = None"
  shows "updatedAt_history ps w = map (\<lambda>p. Some (clock (fst p))) ps
       \<and> sorted (updatedAt_history ps w) = sorted (map (\<lambda>p. clock (fst p)) ps)
       \<and> (\<forall>p \<in> set ps. store (snd (savePricesToDB (fst p) (snd p) w')) market_prices
                           = Some (priceDoc (clock (fst p)) (snd p)))"
proof -
  have h: "updatedAt_history ps w = map (\<lambda>p. Some (clock (fst p))) ps"
    using assms by (rule updatedAt_history_written)
  have "\<forall>p \<in> set ps. store (snd (savePricesToDB (fst p) (snd p) w')) market_prices
                           = Some (priceDoc (clock (fst p)) (snd p))"
    using assms by (simp add: savePricesToDB_written)
  with h show ?thesis by (simp add: sorted_map_Some)
qed

theorem savePricesToDB_replaces_unconditionally_witness:
  "db_set env_ok = None \<and> db_set env_earlier = None
   \<and> updatedAt_history [(env_ok, rice_payload), (env_earlier, rice_payload)] world0
       = [Some ''2024-06-01T09:00:01.250Z'', Some ''2024-06-01T08:59:00.000Z'']
   \<and> \<not> sorted (updatedAt_history [(env_ok, rice_payload), (env_earlier, rice_payload)] world0)
   \<and> store (snd (savePricesToDB env_earlier rice_payload world_old)) market_prices
       = Some (priceDoc ''2024-06-01T08:59:00.000Z'' rice_payload)"
proof -
  have h: "\<forall>p \<in> set [(env_ok, rice_payload), (env_earlier, rice_payload)]. db_set (fst p) = None"
    by (simp add: env_ok_def env_earlier_def)
  show ?thesis
    using h savePricesToDB_replaces_unconditionally [OF h, of world0 world_old]
    by (elim conjE) (simp add: env_ok_def env_earlier_def)
qed

text \<open>
  Claim C6, as stated, fails. A payload with no commodity price at all, \<^verbatim>\<open>{}\<close>, is
  written like any other: the write is called and the stored document becomes
  \<^verbatim>\<open>{updatedAt: ...}\<close>, whereas a rejected request calls no write and keeps the old
  document.
\<close>

theorem empty_payload_is_persisted:
  "http_get env_empty_payload = Inr (JObj fmempty) \<and> db_set env_empty_payload = None
   \<and> store (snd (updateMarketPrices env_empty_payload world_old)) market_prices
       = Some (fmupd ''updatedAt'' (JStr ''2024-06-01T09:00:01.250Z'') fmempty)
   \<and> count_sets (trace (snd (updateMarketPrices env_empty_payload world_old))) = 1
   \<and> http_get env_fetch_fails = Inl Timeout
   \<and> store (snd (updateMarketPrices env_fetch_fails world_old)) market_prices = Some old_doc
   \<and> count_sets (trace (snd (updateMarketPrices env_fetch_fails world_old))) = 0"
proof -
  have h: "http_get env_empty_payload = Inr (JObj fmempty)" "db_set env_empty_payload = None"
    "clock env_empty_payload = ''2024-06-01T09:00:01.250Z''"
    by (simp_all add: env_empty_payload_def env_ok_def)
  have f: "http_get env_fetch_fails = Inl Timeout"
    by (simp add: env_fetch_fails_def env_ok_def)
  show ?thesis
    by (simp add: h f updateMarketPrices_written [OF h(1,2)]
        updateMarketPrices_fetch_rejected [OF f] priceDoc_def count_sets_def world_old_def)
qed

text \<open>
  Claim C6, amended. The payload is not examined. Whatever value the request returns,
  the task hands its own properties plus \<^verbatim>\<open>updatedAt\<close> to the write; the document is
  stored when the write succeeds, and only a rejected write keeps the old one.
\<close>

theorem every_payload_is_written:
  assumes "http_get e = Inr data"
  shows "trace (snd (updateMarketPrices e w)) = trace w @
           [HttpGet market_url, DbSet market_prices (priceDoc (clock e) data),
            (case db_set e of None \<Rightarrow> ConsoleLog updated_msg
                            | Some err \<Rightarrow> ConsoleError failed_msg err)]
       \<and> store (snd (updateMarketPrices e w)) market_prices =
           (case db_set e of None \<Rightarrow> Some (priceDoc (clock e) data)
                           | Some err \<Rightarrow> store w market_prices)"
  using assms
  by (cases "db_set e")
    (simp_all add: updateMarketPrices_written updateMarketPrices_write_rejected)

theorem every_payload_is_written_witness:
  "http_get env_empty_payload = Inr (JObj fmempty)
   \<and> trace (snd (updateMarketPrices env_empty_payload world_old)) =
       [HttpGet market_url,
        DbSet market_prices (fmupd ''updatedAt'' (JStr ''2024-06-01T09:00:01.250Z'') fmempty),
        ConsoleLog updated_msg]
   \<and> store (snd (updateMarketPrices env_empty_payload world_old)) market_prices
       = Some (fmupd ''updatedAt'' (JStr ''2024-06-01T09:00:01.250Z'') fmempty)"
proof -
  have h: "http_get env_empty_payload = Inr (JObj fmempty)"
    by (simp add: env_empty_payload_def env_ok_def)
  have c: "db_set env_empty_payload = None"
    "clock env_empty_payload = ''2024-06-01T09:00:01.250Z''" "trace world_old = []"
    by (simp_all add: env_empty_payload_def env_ok_def world_old_def)
  show ?thesis
    using h every_payload_is_written [OF h, of world_old]
    by (elim conjE) (simp add: c priceDoc_def)
qed

text \<open>
  Claim C7, as stated, fails. After the request returns \<^verbatim>\<open>{rice: 32.5}\<close> for a tick at
  09:00:00.000, the stored document carries \<^verbatim>\<open>updatedAt\<close> 09:00:01.250, the clock
  reading at the save and not the time of the tick; it has no \<^verbatim>\<open>status\<close> and no
  \<^verbatim>\<open>fetchedAt\<close> field, and it is not equal to the payload.
\<close>

theorem stored_snapshot_has_save_time_and_no_status:
  "http_get env_ok = Inr rice_payload \<and> db_set env_ok = None \<and> db_get env_ok = None
   \<and> tick_time env_ok = ''2024-06-01T09:00:00.000Z''
   \<and> fst (getCachedPrices env_ok (snd (updateMarketPrices env_ok world0)))
       = Inr (Some (priceDoc ''2024-06-01T09:00:01.250Z'' rice_payload))
   \<and> fmlookup (priceDoc ''2024-06-01T09:00:01.250Z'' rice_payload) ''updatedAt''
       = Some (JStr ''2024-06-01T09:00:01.250Z'')
   \<and> fmlookup (priceDoc ''2024-06-01T09:00:01.250Z'' rice_payload) ''updatedAt''
       \<noteq> Some (JStr (tick_time env_ok))
   \<and> fmlookup (priceDoc ''2024-06-01T09:00:01.250Z'' rice_payload) ''status'' = None
   \<and> fmlookup (priceDoc ''2024-06-01T09:00:01.250Z'' rice_payload) ''fetchedAt'' = None
   \<and> priceDoc ''2024-06-01T09:00:01.250Z'' rice_payload \<noteq> ownProps rice_payload"
proof -
  have h: "http_get env_ok = Inr rice_payload" "db_set env_ok = None" "db_get env_ok = None"
    "clock env_ok = ''2024-06-01T09:00:01.250Z''"
    "tick_time env_ok = ''2024-06-01T09:00:00.000Z''"
    by (simp_all add: env_ok_def)
  have n: "priceDoc ''2024-06-01T09:00:01.250Z'' rice_payload \<noteq> ownProps rice_payload"
  proof
    assume "priceDoc ''2024-06-01T09:00:01.250Z'' rice_payload = ownProps rice_payload"
    then have "fmlookup (priceDoc ''2024-06-01T09:00:01.250Z'' rice_payload) ''updatedAt''
                 = fmlookup (ownProps rice_payload) ''updatedAt''"
      by simp
    then show False
      by (simp add: priceDoc_def rice_payload_def)
  qed
  show ?thesis
    using n
    by (simp add: h updateMarketPrices_written [OF h(1,2)] getCachedPrices_def emit_def
        priceDoc_def rice_payload_def)
qed

text \<open>
  Claim C7, amended. After a refresh whose request and write both succeed, the write
  has been called exactly once, and a read returns the fetched payload's own properties
  with \<^verbatim>\<open>updatedAt\<close> set to the clock reading at the save. No \<^verbatim>\<open>status\<close> is added: the
  document has one only if the payload has. For \<^verbatim>\<open>{rice: 32.5}\<close> the document read
  back has \<^verbatim>\<open>rice\<close> 32.5 and no \<^verbatim>\<open>status\<close>.
\<close>

theorem successful_refresh_stores_stamped_payload:
  assumes "http_get e = Inr data" and "db_set e = None" and "db_get e' = None"
  shows "count_sets (trace (snd (updateMarketPrices e w))) = Suc (count_sets (trace w))
       \<and> fst (getCachedPrices e' (snd (updateMarketPrices e w)))
           = Inr (Some (priceDoc (clock e) data))
       \<and> fmlookup (priceDoc (clock e) data) ''updatedAt'' = Some (JStr (clock e))
       \<and> fmlookup (priceDoc (clock e) data) ''status'' = fmlookup (ownProps data) ''status''
       \<and> fmlookup (priceDoc (clock e) data) ''rice'' = fmlookup (ownProps data) ''rice''"
  using assms
  by (simp add: updateMarketPrices_written getCachedPrices_def emit_def count_sets_def
      priceDoc_def)

theorem successful_refresh_stores_stamped_payload_witness:
  "http_get env_ok = Inr rice_payload \<and> db_set env_ok = None \<and> db_get env_ok = None
   \<and> count_sets (trace (snd (updateMarketPrices env_ok world0))) = 1
   \<and> fst (getCachedPrices env_ok (snd (updateMarketPrices env_ok world0)))
       = Inr (Some (priceDoc ''2024-06-01T09:00:01.250Z'' rice_payload))
   \<and> fmlookup (priceDoc ''2024-06-01T09:00:01.250Z'' rice_payload) ''rice''
       = Some (JNum (65 / 2))
   \<and> fmlookup (priceDoc ''2024-06-01T09:00:01.250Z'' rice_payload) ''status'' = None"
proof -
  have h: "http_get env_ok = Inr rice_payload" "db_set env_ok = None" "db_get env_ok = None"
    by (simp_all add: env_ok_def)
  have c: "clock env_ok = ''2024-06-01T09:00:01.250Z''" "count_sets (trace world0) = 0"
    by (simp_all add: env_ok_def world0_def count_sets_def)
  show ?thesis
    using h successful_refresh_stores_stamped_payload [OF h, of world0]
    by (elim conjE) (simp add: c rice_payload_def)
qed

section \<open>Overlapping runs\<close>

lemma step_Tick_in_flight: "in_flight (step Tick s) = Suc (in_flight s)"
  by (simp add: in_flight_def)

lemma step_Tick_fetches:
  "count_fetches (trace (sworld (step Tick s))) = Suc (count_fetches (trace (sworld s)))"
  by (simp add: count_fetches_def emit_def)

text \<open>
  Claim C2, as stated, fails. A tick that fires while the run of the previous tick is
  still waiting for its request starts a second run: two runs are in flight and two
  requests have been sent.
\<close>

theorem tick_while_in_flight_is_not_skipped:
  "tasks (step Tick sys0) = [AwaitFetch]
   \<and> in_flight (step Tick sys0) = 1
   \<and> tasks (step Tick (step Tick sys0)) = [AwaitFetch, AwaitFetch]
   \<and> in_flight (step Tick (step Tick sys0)) = 2
   \<and> trace (sworld (step Tick (step Tick sys0))) = [HttpGet market_url, HttpGet market_url]"
  by (simp add: sys0_def world0_def in_flight_def emit_def)

text \<open>
  Claim C2, amended. Every tick starts a run and sends a request at once, whatever is
  in flight: after \<open>n\<close> ticks with no run settling in between, \<open>n\<close> more runs are in
  flight and \<open>n\<close> more requests have been sent. No tick is skipped and none is queued.
\<close>

theorem every_tick_starts_a_fetch:
  "tasks (step Tick s) = tasks s @ [AwaitFetch]
   \<and> in_flight ((step Tick ^^ n) s) = in_flight s + n
   \<and> count_fetches (trace (sworld ((step Tick ^^ n) s)))
       = count_fetches (trace (sworld s)) + n"
proof -
  have "in_flight ((step Tick ^^ n) s) = in_flight s + n"
    by (induction n) (simp_all add: step_Tick_in_flight del: step.simps)
  moreover have "count_fetches (trace (sworld ((step Tick ^^ n) s)))
       = count_fetches (trace (sworld s)) + n"
    by (induction n) (simp_all add: step_Tick_fetches del: step.simps)
  ultimately show ?thesis by simp
qed

theorem every_tick_starts_a_fetch_witness:
  "tasks (step Tick sys0) = [AwaitFetch]
   \<and> in_flight ((step Tick ^^ 2) sys0) = 2
   \<and> count_fetches (trace (sworld ((step Tick ^^ 2) sys0))) = 2"
proof -
  have "in_flight sys0 = 0" "count_fetches (trace (sworld sys0)) = 0" "tasks sys0 = []"
    by (simp_all add: in_flight_def count_fetches_def sys0_def world0_def)
  then show ?thesis
    using every_tick_starts_a_fetch [of sys0 2] by simp
qed

section \<open>Reading with nothing stored\<close>

text \<open>
  Claim C4, as stated, fails. With no market document stored, \<^verbatim>\<open>getCachedPrices\<close>
  returns \<^verbatim>\<open>undefined\<close> and the handler passes \<^verbatim>\<open>undefined\<close> to \<^verbatim>\<open>res.json\<close>.
\<close>

theorem getCachedPrices_returns_undefined:
  "db_get env_ok = None \<and> store world0 market_prices = None
   \<and> fst (getCachedPrices env_ok world0) = Inr None
   \<and> market_handler env_ok world0
       = (Inr (), \<lparr>store = (\<lambda>p. None), trace = [DbGet market_prices, ResJson None]\<rparr>)"
  by (simp add: env_ok_def world0_def getCachedPrices_def market_handler_def emit_def)

text \<open>
  Claim C4, amended. There is no in-memory store: every call of \<^verbatim>\<open>getCachedPrices\<close>
  makes exactly one Firestore read and, when the read succeeds, returns the stored
  document if there is one and \<^verbatim>\<open>undefined\<close> if there is none; the handler passes that
  value on to \<^verbatim>\<open>res.json\<close>.
\<close>

theorem getCachedPrices_reads_through:
  assumes "db_get e = None"
  shows "getCachedPrices e w =
           (Inr (store w market_prices), w\<lparr>trace := trace w @ [DbGet market_prices]\<rparr>)
       \<and> count_reads (trace (snd (getCachedPrices e w))) = Suc (count_reads (trace w))
       \<and> market_handler e w =
           (Inr (), w\<lparr>trace := trace w @ [DbGet market_prices, ResJson (store w market_prices)]\<rparr>)"
  using assms
  by (simp add: getCachedPrices_def market_handler_def emit_def count_reads_def)

theorem getCachedPrices_reads_through_witness:
  "db_get env_ok = None
   \<and> fst (getCachedPrices env_ok world_old) = Inr (Some old_doc)
   \<and> count_reads (trace (snd (getCachedPrices env_ok world_old))) = 1
   \<and> trace (snd (market_handler env_ok world_old)) = [DbGet market_prices, ResJson (Some old_doc)]
   \<and> fst (getCachedPrices env_ok world0) = Inr None"
proof -
  have h: "db_get env_ok = None"
    by (simp add: env_ok_def)
  have w: "store world_old market_prices = Some old_doc" "trace world_old = []"
    "store world0 market_prices = None"
    by (simp_all add: world_old_def world0_def)
  show ?thesis
    using h getCachedPrices_reads_through [OF h, of world_old]
      getCachedPrices_reads_through [OF h, of world0]
    by (elim conjE) (simp add: w count_reads_def)
qed

end
